theory Spec2Isabelle
  imports Complex_Main "HOL-Library.Product_Lexorder"
begin

section \<open>Data model\<close>

text \<open>
  Device buffers (\<^verbatim>\<open>utility::device_vector<T>\<close>) are lists; \<^verbatim>\<open>size_t\<close> sizes and indices are
  natural numbers. A \<^verbatim>\<open>float\<close> coordinate is an exact real number: rounding and the special
  values of IEEE arithmetic are outside this part of the model (the distances of the
  statistical filter, where the source tests \<^verbatim>\<open>isinf\<close>, have a type of their own below).
  \<^verbatim>\<open>Eigen::Vector3f\<close> and \<^verbatim>\<open>Eigen::Vector3i\<close> are triples. The members \<^verbatim>\<open>points_\<close>, \<^verbatim>\<open>normals_\<close>
  and \<^verbatim>\<open>colors_\<close> of a cloud are the fields \<open>points\<close>, \<open>normals\<close> and \<open>colors\<close>.
\<close>

type_synonym Vector3f = "real \<times> real \<times> real"
type_synonym Vector3i = "int \<times> int \<times> int"

record PointCloud =
  points :: "Vector3f list"
  normals :: "Vector3f list"
  colors :: "Vector3f list"

text \<open>
  What a call can end with besides a value: the exception of \<^verbatim>\<open>utility::LogError\<close>, an access
  outside a buffer (undefined behaviour of the Thrust primitive that makes it), and an
  allocation that cannot succeed.
\<close>

datatype error = RuntimeError string | OutOfBounds | BadAlloc

text \<open>
  \<^verbatim>\<open>utility::LogError\<close> is declared in \<^verbatim>\<open>cupoch/utility/console.h\<close>, which is not among the
  sources at hand. It reports by throwing \<^verbatim>\<open>std::runtime_error\<close> with the message, so the
  statements after a call are not reached; \<^verbatim>\<open>RemoveRadiusOutliers\<close> and
  \<^verbatim>\<open>RemoveStatisticalOutliers\<close> rely on this, since they have no \<^verbatim>\<open>return\<close> after it.
\<close>

definition LogError :: "string \<Rightarrow> error + 'a" where
  "LogError msg = Inl (RuntimeError msg)"

text \<open>\<^verbatim>\<open>std::make_shared<PointCloud>()\<close>: three empty buffers.\<close>

definition make_shared_PointCloud :: PointCloud where
  "make_shared_PointCloud = \<lparr>points = [], normals = [], colors = []\<rparr>"

section \<open>Thrust primitives\<close>

text \<open>\<^verbatim>\<open>device_vector::resize\<close>: truncates, or appends value-initialised elements.\<close>

definition resize :: "nat \<Rightarrow> 'a \<Rightarrow> 'a list \<Rightarrow> 'a list" where
  "resize n z xs = take n xs @ replicate (n - length xs) z"

definition zero3f :: Vector3f where
  "zero3f = (0, 0, 0)"

text \<open>
  Writing a range at the beginning of a buffer, as every primitive with an output
  iterator does. Thrust does not check the size of the destination: writing more elements
  than it holds is an out-of-bounds write.
\<close>

definition write_range :: "'a list \<Rightarrow> 'a list \<Rightarrow> error + 'a list" where
  "write_range xs buf =
     (if length xs \<le> length buf then Inr (xs @ drop (length xs) buf) else Inl OutOfBounds)"

text \<open>
  \<^verbatim>\<open>thrust::gather(map_first, map_last, input_first, result)\<close>:
  \<^verbatim>\<open>result[i] = input_first[map[i]]\<close>. An index outside the input is an out-of-bounds read.
\<close>

definition gather :: "nat list \<Rightarrow> 'a list \<Rightarrow> 'a list \<Rightarrow> error + 'a list" where
  "gather indices input result =
     (if list_all (\<lambda>i. i < length input) indices
      then write_range (map (\<lambda>i. input ! i) indices) result
      else Inl OutOfBounds)"

text \<open>
  \<^verbatim>\<open>thrust::set_difference\<close> on two sorted ranges: the elements of the first that the merge
  does not pair with an equal element of the second.
\<close>

fun set_difference :: "nat list \<Rightarrow> nat list \<Rightarrow> nat list" where
  "set_difference [] ys = []"
| "set_difference (x # xs) [] = x # xs"
| "set_difference (x # xs) (y # ys) =
     (if x < y then x # set_difference xs (y # ys)
      else if y < x then set_difference (x # xs) ys
      else set_difference xs ys)"

section \<open>SelectByIndex\<close>

text \<open>
  \<^verbatim>\<open>HasNormals()\<close> and \<^verbatim>\<open>HasColors()\<close> are declared in \<^verbatim>\<open>pointcloud.h\<close>, which is not among the
  sources; the values they return are the arguments \<open>has_normals\<close> and \<open>has_colors\<close>, named as
  the locals that hold them in the source.
\<close>

definition SelectByIndexImpl ::
  "bool \<Rightarrow> bool \<Rightarrow> PointCloud \<Rightarrow> PointCloud \<Rightarrow> nat list \<Rightarrow> error + PointCloud" where
  "SelectByIndexImpl has_normals has_colors src dst indices =
     (let dst1 = (if has_normals
                  then dst\<lparr>normals := resize (length indices) zero3f (normals dst)\<rparr> else dst);
          dst2 = (if has_colors
                  then dst1\<lparr>colors := resize (length indices) zero3f (colors dst1)\<rparr> else dst1);
          dst3 = dst2\<lparr>points := resize (length indices) zero3f (points dst2)\<rparr>
      in case gather indices (points src) (points dst3) of
           Inl e \<Rightarrow> Inl e
         | Inr ps \<Rightarrow>
             (case (if has_normals then gather indices (normals src) (normals dst3)
                    else Inr (normals dst3)) of
                Inl e \<Rightarrow> Inl e
              | Inr ns \<Rightarrow>
                  (case (if has_colors then gather indices (colors src) (colors dst3)
                         else Inr (colors dst3)) of
                     Inl e \<Rightarrow> Inl e
                   | Inr cs \<Rightarrow> Inr \<lparr>points = ps, normals = ns, colors = cs\<rparr>)))"

text \<open>
  With \<open>invert\<close>, \<^verbatim>\<open>n_out = points_.size() - indices.size()\<close> is a \<^verbatim>\<open>size_t\<close> subtraction: with
  more indices than points it wraps to a size no device can allocate. The buffer of
  \<open>n_out\<close> zeros then receives the whole set difference, whatever its length.
\<close>

definition SelectByIndex ::
  "bool \<Rightarrow> bool \<Rightarrow> PointCloud \<Rightarrow> nat list \<Rightarrow> bool \<Rightarrow> error + PointCloud" where
  "SelectByIndex has_normals has_colors this indices invert =
     (let output = make_shared_PointCloud in
      if invert then
        if length (points this) < length indices then Inl BadAlloc
        else
          let n_out = length (points this) - length indices;
              sorted_indices = sort indices
          in case write_range (set_difference [0..<length (points this)] sorted_indices)
                              (replicate n_out 0) of
               Inl e \<Rightarrow> Inl e
             | Inr inv_indices \<Rightarrow> SelectByIndexImpl has_normals has_colors this output inv_indices
      else SelectByIndexImpl has_normals has_colors this output indices)"

section \<open>UniformDownSample\<close>

text \<open>
  \<^verbatim>\<open>thrust::strided_range\<close> (\<^verbatim>\<open>cupoch/utility/range.h\<close>): the elements at positions
  \<open>0, stride, 2 * stride, ...\<close>; its \<^verbatim>\<open>end()\<close> is
  \<^verbatim>\<open>begin() + ((last - first) + (stride - 1)) / stride\<close>.
\<close>

definition strided_range :: "'a list \<Rightarrow> nat \<Rightarrow> 'a list" where
  "strided_range xs stride =
     map (\<lambda>i. xs ! (stride * i)) [0..<(length xs + (stride - 1)) div stride]"

text \<open>
  The three \<^verbatim>\<open>thrust::copy\<close> calls write the whole strided range into buffers that were
  resized to \<^verbatim>\<open>n_out = points_.size() / every_k_points\<close>.
\<close>

definition UniformDownSample :: "bool \<Rightarrow> bool \<Rightarrow> PointCloud \<Rightarrow> nat \<Rightarrow> error + PointCloud" where
  "UniformDownSample has_normals has_colors this every_k_points =
     (let output = make_shared_PointCloud in
      if every_k_points = 0 then LogError ''[UniformDownSample] Illegal sample rate.''
      else
        let n_out = length (points this) div every_k_points;
            output1 = output\<lparr>points := resize n_out zero3f (points output)\<rparr>;
            output2 = (if has_normals
                       then output1\<lparr>normals := resize n_out zero3f (normals output1)\<rparr>
                       else output1);
            output3 = (if has_colors
                       then output2\<lparr>colors := resize n_out zero3f (colors output2)\<rparr>
                       else output2)
        in case write_range (strided_range (points this) every_k_points) (points output3) of
             Inl e \<Rightarrow> Inl e
           | Inr ps \<Rightarrow>
               (case (if has_normals
                      then write_range (strided_range (normals this) every_k_points)
                                       (normals output3)
                      else Inr (normals output3)) of
                  Inl e \<Rightarrow> Inl e
                | Inr ns \<Rightarrow>
                    (case (if has_colors
                           then write_range (strided_range (colors this) every_k_points)
                                            (colors output3)
                           else Inr (colors output3)) of
                       Inl e \<Rightarrow> Inl e
                     | Inr cs \<Rightarrow> Inr \<lparr>points = ps, normals = ns, colors = cs\<rparr>)))"

section \<open>VoxelDownSample\<close>

text \<open>What \<^verbatim>\<open>utility::LogWarning\<close> and \<^verbatim>\<open>utility::LogDebug\<close> are called with; neither throws.\<close>

datatype log_entry = Warning string | Debug string "nat list"

definition add3f :: "Vector3f \<Rightarrow> Vector3f \<Rightarrow> Vector3f" where
  "add3f a b = (case (a, b) of ((ax, ay, az), (bx, by, bz)) \<Rightarrow> (ax + bx, ay + by, az + bz))"

definition sub3f :: "Vector3f \<Rightarrow> Vector3f \<Rightarrow> Vector3f" where
  "sub3f a b = (case (a, b) of ((ax, ay, az), (bx, by, bz)) \<Rightarrow> (ax - bx, ay - by, az - bz))"

definition scale3f :: "Vector3f \<Rightarrow> real \<Rightarrow> Vector3f" where
  "scale3f a s = (case a of (ax, ay, az) \<Rightarrow> (ax * s, ay * s, az * s))"

definition div3f :: "Vector3f \<Rightarrow> real \<Rightarrow> Vector3f" where
  "div3f a s = (case a of (ax, ay, az) \<Rightarrow> (ax / s, ay / s, az / s))"

definition maxCoeff :: "Vector3f \<Rightarrow> real" where
  "maxCoeff a = (case a of (ax, ay, az) \<Rightarrow> max (max ax ay) az)"

text \<open>Eigen's \<^verbatim>\<open>normalize()\<close>: divides by the norm, and leaves the zero vector as it is.\<close>

definition squaredNorm :: "Vector3f \<Rightarrow> real" where
  "squaredNorm a = (case a of (ax, ay, az) \<Rightarrow> ax * ax + ay * ay + az * az)"

definition normalize :: "Vector3f \<Rightarrow> Vector3f" where
  "normalize a = (let z = squaredNorm a in if 0 < z then div3f a (sqrt z) else a)"

definition INT_MAX :: int where
  "INT_MAX = 2147483647"

definition compute_key_functor :: "Vector3f \<Rightarrow> real \<Rightarrow> Vector3f \<Rightarrow> Vector3i" where
  "compute_key_functor voxel_min_bound voxel_size pt =
     (case div3f (sub3f pt voxel_min_bound) voxel_size of
        (rx, ry, rz) \<Rightarrow> (\<lfloor>rx\<rfloor>, \<lfloor>ry\<rfloor>, \<lfloor>rz\<rfloor>))"

text \<open>
  \<^verbatim>\<open>add_tuple_functor\<close>, \<^verbatim>\<open>devide_tuple_functor\<close> and \<^verbatim>\<open>devide_tuple_impl\<close> are defined in
  \<^verbatim>\<open>cupoch/utility/helper.h\<close>, which is not among the sources: the first adds two tuples
  component by component, the others divide every component of a tuple by the count.
  They are written out for the tuple types of the four branches.
\<close>

definition add_tuple_functor_1 :: "Vector3f \<times> int \<Rightarrow> Vector3f \<times> int \<Rightarrow> Vector3f \<times> int" where
  "add_tuple_functor_1 x y = (case (x, y) of ((p, c), (p', c')) \<Rightarrow> (add3f p p', c + c'))"

definition add_tuple_functor_2 ::
  "Vector3f \<times> Vector3f \<times> int \<Rightarrow> Vector3f \<times> Vector3f \<times> int \<Rightarrow> Vector3f \<times> Vector3f \<times> int" where
  "add_tuple_functor_2 x y =
     (case (x, y) of ((p, a, c), (p', a', c')) \<Rightarrow> (add3f p p', add3f a a', c + c'))"

definition add_tuple_functor_3 ::
  "Vector3f \<times> Vector3f \<times> Vector3f \<times> int \<Rightarrow> Vector3f \<times> Vector3f \<times> Vector3f \<times> int
   \<Rightarrow> Vector3f \<times> Vector3f \<times> Vector3f \<times> int" where
  "add_tuple_functor_3 x y =
     (case (x, y) of ((p, a, b, c), (p', a', b', c')) \<Rightarrow>
        (add3f p p', add3f a a', add3f b b', c + c'))"

definition devide_tuple_functor_1 :: "Vector3f \<Rightarrow> int \<Rightarrow> Vector3f" where
  "devide_tuple_functor_1 x y = div3f x (real_of_int y)"

definition devide_tuple_functor_2 :: "Vector3f \<times> Vector3f \<Rightarrow> int \<Rightarrow> Vector3f \<times> Vector3f" where
  "devide_tuple_functor_2 x y =
     (case x of (p, a) \<Rightarrow> (div3f p (real_of_int y), div3f a (real_of_int y)))"

text \<open>\<^verbatim>\<open>normalize_and_devide_tuple_functor<1, ...>\<close>: divide, then normalize component 1.\<close>

definition normalize_and_devide_tuple_functor_2 ::
  "Vector3f \<times> Vector3f \<Rightarrow> int \<Rightarrow> Vector3f \<times> Vector3f" where
  "normalize_and_devide_tuple_functor_2 x y =
     (case x of (p, a) \<Rightarrow> (div3f p (real_of_int y), normalize (div3f a (real_of_int y))))"

definition normalize_and_devide_tuple_functor_3 ::
  "Vector3f \<times> Vector3f \<times> Vector3f \<Rightarrow> int \<Rightarrow> Vector3f \<times> Vector3f \<times> Vector3f" where
  "normalize_and_devide_tuple_functor_3 x y =
     (case x of (p, a, b) \<Rightarrow>
        (div3f p (real_of_int y), normalize (div3f a (real_of_int y)),
         div3f b (real_of_int y)))"

text \<open>
  \<^verbatim>\<open>thrust::sort_by_key\<close> sorts the keys and permutes the values with them; the values are
  read at as many positions as there are keys. The order of \<^verbatim>\<open>Eigen::Vector3i\<close> keys
  (\<^verbatim>\<open>operator<\<close> of \<^verbatim>\<open>cupoch/utility/eigen.h\<close>, not among the sources) is taken to be the
  lexicographic one. Elements with equal keys keep their order here; Thrust leaves
  that order open, and in exact arithmetic the sums below do not depend on it.
\<close>

definition sort_by_key :: "'k::linorder list \<Rightarrow> 'v list \<Rightarrow> error + ('k list \<times> 'v list)" where
  "sort_by_key keys vals =
     (if length vals < length keys then Inl OutOfBounds
      else let s = sort_key fst (zip keys vals) in Inr (map fst s, map snd s))"

text \<open>
  \<^verbatim>\<open>thrust::reduce_by_key\<close>: every maximal run of consecutive keys that \<open>binary_pred\<close> holds
  equal is reduced with \<open>binary_op\<close> to one value. The keys it would write go to a
  \<^verbatim>\<open>discard_iterator\<close> at every call, so only the values are returned.
\<close>

fun reduce_by_key :: "('k \<Rightarrow> 'k \<Rightarrow> bool) \<Rightarrow> ('v \<Rightarrow> 'v \<Rightarrow> 'v) \<Rightarrow> ('k \<times> 'v) list \<Rightarrow> 'v list" where
  "reduce_by_key binary_pred binary_op [] = []"
| "reduce_by_key binary_pred binary_op [(k, v)] = [v]"
| "reduce_by_key binary_pred binary_op ((k, v) # (k', v') # rest) =
     (if binary_pred k k'
      then reduce_by_key binary_pred binary_op ((k', binary_op v v') # rest)
      else v # reduce_by_key binary_pred binary_op ((k', v') # rest))"

text \<open>\<^verbatim>\<open>thrust::transform\<close> with two input ranges and a binary functor.\<close>

definition transform2 :: "('a \<Rightarrow> 'b \<Rightarrow> 'c) \<Rightarrow> 'a list \<Rightarrow> 'b list \<Rightarrow> 'c list" where
  "transform2 f xs ys = map (\<lambda>(x, y). f x y) (zip xs ys)"

text \<open>
  \<^verbatim>\<open>GetMinBound()\<close> and \<^verbatim>\<open>GetMaxBound()\<close> are defined in \<^verbatim>\<open>pointcloud.cu\<close>, which is not among
  the sources; the vectors they return are the arguments \<open>min_bound\<close> and \<open>max_bound\<close>.

  The four branches of \<^verbatim>\<open>VoxelDownSample\<close> are the next four definitions. Each sorts copies
  of the attribute buffers by voxel key, sums every run of equal keys together with a
  count of 1 per point into the output buffers (resized to \<open>n\<close> before), divides the first
  \<open>n_out\<close> of them by their counts in place and cuts the output to \<open>n_out\<close> elements.
\<close>

definition VoxelDownSample_points ::
  "nat \<Rightarrow> Vector3i list \<Rightarrow> PointCloud \<Rightarrow> PointCloud \<Rightarrow> int list \<Rightarrow> error + PointCloud" where
  "VoxelDownSample_points n keys this output counts =
     (let sorted_points = points this in
      case sort_by_key keys sorted_points of
        Inl e \<Rightarrow> Inl e
      | Inr (keys', sorted_points') \<Rightarrow>
          let reduced = reduce_by_key (=) add_tuple_functor_1
                          (zip keys' (zip sorted_points' (replicate n 1)))
          in case write_range reduced (zip (points output) counts) of
               Inl e \<Rightarrow> Inl e
             | Inr buf \<Rightarrow>
                 let n_out = length reduced;
                     output_begins = map fst buf;
                     counts' = map snd buf
                 in case write_range
                           (transform2 devide_tuple_functor_1 (take n_out output_begins) counts')
                           output_begins of
                      Inl e \<Rightarrow> Inl e
                    | Inr res \<Rightarrow> Inr (output\<lparr>points := resize n_out zero3f res\<rparr>))"

definition VoxelDownSample_normals ::
  "nat \<Rightarrow> Vector3i list \<Rightarrow> PointCloud \<Rightarrow> PointCloud \<Rightarrow> int list \<Rightarrow> error + PointCloud" where
  "VoxelDownSample_normals n keys this output counts =
     (let sorted_points = points this;
          sorted_normals = normals this;
          output1 = output\<lparr>normals := resize n zero3f (normals output)\<rparr>
      in case sort_by_key keys (zip sorted_points sorted_normals) of
        Inl e \<Rightarrow> Inl e
      | Inr (keys', sorted') \<Rightarrow>
          let reduced = reduce_by_key (=) add_tuple_functor_2
                          (zip keys' (map (\<lambda>(p, a). (p, a, 1)) sorted'))
          in case write_range reduced (zip (points output1) (zip (normals output1) counts)) of
               Inl e \<Rightarrow> Inl e
             | Inr buf \<Rightarrow>
                 let n_out = length reduced;
                     output_begins = map (\<lambda>(p, a, c). (p, a)) buf;
                     counts' = map (\<lambda>(p, a, c). c) buf
                 in case write_range
                           (transform2 normalize_and_devide_tuple_functor_2
                              (take n_out output_begins) counts')
                           output_begins of
                      Inl e \<Rightarrow> Inl e
                    | Inr res \<Rightarrow>
                        Inr (output1\<lparr>points := resize n_out zero3f (map fst res),
                                     normals := resize n_out zero3f (map snd res)\<rparr>))"

definition VoxelDownSample_colors ::
  "nat \<Rightarrow> Vector3i list \<Rightarrow> PointCloud \<Rightarrow> PointCloud \<Rightarrow> int list \<Rightarrow> error + PointCloud" where
  "VoxelDownSample_colors n keys this output counts =
     (let sorted_points = points this;
          sorted_colors = colors this;
          output1 = output\<lparr>colors := resize n zero3f (colors output)\<rparr>
      in case sort_by_key keys (zip sorted_points sorted_colors) of
        Inl e \<Rightarrow> Inl e
      | Inr (keys', sorted') \<Rightarrow>
          let reduced = reduce_by_key (=) add_tuple_functor_2
                          (zip keys' (map (\<lambda>(p, b). (p, b, 1)) sorted'))
          in case write_range reduced (zip (points output1) (zip (colors output1) counts)) of
               Inl e \<Rightarrow> Inl e
             | Inr buf \<Rightarrow>
                 let n_out = length reduced;
                     output_begins = map (\<lambda>(p, b, c). (p, b)) buf;
                     counts' = map (\<lambda>(p, b, c). c) buf
                 in case write_range
                           (transform2 devide_tuple_functor_2 (take n_out output_begins) counts')
                           output_begins of
                      Inl e \<Rightarrow> Inl e
                    | Inr res \<Rightarrow>
                        Inr (output1\<lparr>points := resize n_out zero3f (map fst res),
                                     colors := resize n_out zero3f (map snd res)\<rparr>))"

definition VoxelDownSample_normals_colors ::
  "nat \<Rightarrow> Vector3i list \<Rightarrow> PointCloud \<Rightarrow> PointCloud \<Rightarrow> int list \<Rightarrow> error + PointCloud" where
  "VoxelDownSample_normals_colors n keys this output counts =
     (let sorted_points = points this;
          sorted_normals = normals this;
          sorted_colors = colors this;
          output1 = output\<lparr>normals := resize n zero3f (normals output),
                            colors := resize n zero3f (colors output)\<rparr>
      in case sort_by_key keys (zip sorted_points (zip sorted_normals sorted_colors)) of
        Inl e \<Rightarrow> Inl e
      | Inr (keys', sorted') \<Rightarrow>
          let reduced = reduce_by_key (=) add_tuple_functor_3
                          (zip keys' (map (\<lambda>(p, a, b). (p, a, b, 1)) sorted'))
          in case write_range reduced
                    (zip (points output1) (zip (normals output1) (zip (colors output1) counts))) of
               Inl e \<Rightarrow> Inl e
             | Inr buf \<Rightarrow>
                 let n_out = length reduced;
                     output_begins = map (\<lambda>(p, a, b, c). (p, a, b)) buf;
                     counts' = map (\<lambda>(p, a, b, c). c) buf
                 in case write_range
                           (transform2 normalize_and_devide_tuple_functor_3
                              (take n_out output_begins) counts')
                           output_begins of
                      Inl e \<Rightarrow> Inl e
                    | Inr res \<Rightarrow>
                        Inr (output1\<lparr>points := resize n_out zero3f (map fst res),
                                     normals := resize n_out zero3f (map (\<lambda>(p, a, b). a) res),
                                     colors := resize n_out zero3f (map (\<lambda>(p, a, b). b) res)\<rparr>))"

definition VoxelDownSample ::
  "bool \<Rightarrow> bool \<Rightarrow> Vector3f \<Rightarrow> Vector3f \<Rightarrow> PointCloud \<Rightarrow> real
   \<Rightarrow> error + (log_entry list \<times> PointCloud)" where
  "VoxelDownSample has_normals has_colors min_bound max_bound this voxel_size =
     (let output = make_shared_PointCloud in
      if voxel_size \<le> 0 then Inr ([Warning ''[VoxelDownSample] voxel_size <= 0.\<newline>''], output)
      else
        let voxel_size3 = (voxel_size, voxel_size, voxel_size);
            voxel_min_bound = sub3f min_bound (scale3f voxel_size3 0.5);
            voxel_max_bound = add3f max_bound (scale3f voxel_size3 0.5)
        in
        if voxel_size * real_of_int INT_MAX < maxCoeff (sub3f voxel_max_bound voxel_min_bound)
        then Inr ([Warning ''[VoxelDownSample] voxel_size is too small.\<newline>''], output)
        else
          let n = length (points this);
              keys = map (compute_key_functor voxel_min_bound voxel_size) (points this);
              output0 = output\<lparr>points := resize n zero3f (points output)\<rparr>;
              counts = replicate n (0 :: int)
          in case (if \<not> has_normals \<and> \<not> has_colors
                   then VoxelDownSample_points n keys this output0 counts
                   else if has_normals \<and> \<not> has_colors
                   then VoxelDownSample_normals n keys this output0 counts
                   else if \<not> has_normals \<and> has_colors
                   then VoxelDownSample_colors n keys this output0 counts
                   else VoxelDownSample_normals_colors n keys this output0 counts) of
               Inl e \<Rightarrow> Inl e
             | Inr out \<Rightarrow>
                 Inr ([Debug ''Pointcloud down sampled from {:d} points to {:d} points.\<newline>''
                         [length (points this), length (points out)]], out))"

section \<open>Voxel cells and means, in the words of the specification\<close>







section \<open>RemoveRadiusOutliers\<close>

text \<open>
  \<^verbatim>\<open>thrust::repeated_range\<close> (\<^verbatim>\<open>cupoch/utility/range.h\<close>): every element \<open>repeats\<close> times in a
  row; its \<^verbatim>\<open>end()\<close> is \<^verbatim>\<open>begin() + repeats * (last - first)\<close>.
\<close>

definition repeated_range :: "'a list \<Rightarrow> nat \<Rightarrow> 'a list" where
  "repeated_range xs repeats = map (\<lambda>i. xs ! (i div repeats)) [0..<repeats * length xs]"

text \<open>
  \<^verbatim>\<open>KDTreeFlann\<close> is not among the sources. \<open>SearchRadius geometry query radius max_nn\<close> stands
  for \<^verbatim>\<open>SetGeometry\<close> followed by \<^verbatim>\<open>SearchRadius\<close>: it returns the index buffer and the distance
  buffer, \<open>max_nn\<close> slots per query point, a slot without a hit holding a negative index.

  \<^verbatim>\<open>thrust::copy_if\<close> over \<^verbatim>\<open>enumerate_begin(counts)\<close> (\<^verbatim>\<open>helper.h\<close>: each element paired with its
  position) writes the positions that pass into \<open>indices\<close>. The locals \<^verbatim>\<open>range\<close> and \<^verbatim>\<open>dist\<close> of
  the source are \<open>key_range\<close> and \<open>distances\<close> here.
\<close>

definition RemoveRadiusOutliers ::
  "bool \<Rightarrow> bool \<Rightarrow> (PointCloud \<Rightarrow> Vector3f list \<Rightarrow> real \<Rightarrow> nat \<Rightarrow> int list \<times> real list)
   \<Rightarrow> PointCloud \<Rightarrow> nat \<Rightarrow> real \<Rightarrow> error + (PointCloud \<times> nat list)" where
  "RemoveRadiusOutliers has_normals has_colors SearchRadius this nb_points search_radius =
     (case (if nb_points < 1 \<or> search_radius \<le> 0
            then LogError (''[RemoveRadiusOutliers] Illegal input parameters,'' @
                           ''number of points and radius must be positive'')
            else Inr ()) of
        Inl e \<Rightarrow> Inl e
      | Inr _ \<Rightarrow>
          (case SearchRadius this (points this) search_radius (nb_points + 1) of
             (tmp_indices, distances) \<Rightarrow>
               (let n_pt = length (points this);
                    counts = replicate n_pt (0 :: nat);
                    indices = replicate n_pt (0 :: nat);
                    key_range = repeated_range [0..<n_pt] (nb_points + 1)
                in if length tmp_indices < length key_range then Inl OutOfBounds
                   else
                     (case write_range
                            (reduce_by_key (=) (+)
                               (zip key_range
                                  (map (\<lambda>idx. if 0 \<le> idx then 1 else 0) tmp_indices)))
                            counts of
                        Inl e \<Rightarrow> Inl e
                      | Inr counts' \<Rightarrow>
                          (let selected = filter (\<lambda>x. nb_points < snd x) (enumerate 0 counts')
                           in case write_range (map fst selected) indices of
                                Inl e \<Rightarrow> Inl e
                              | Inr indices' \<Rightarrow>
                                  (let indices'' = resize (length selected) 0 indices'
                                   in case SelectByIndex has_normals has_colors this indices''
                                             False of
                                        Inl e \<Rightarrow> Inl e
                                      | Inr output \<Rightarrow> Inr (output, indices'')))))))"

text \<open>
  In the words of the specification: the number of valid hits among the \<open>max_nn\<close> slots of
  the query point \<open>i\<close>.
\<close>

definition valid_hits :: "int list \<Rightarrow> nat \<Rightarrow> nat \<Rightarrow> nat" where
  "valid_hits tmp_indices max_nn i =
     length (filter (\<lambda>j. 0 \<le> tmp_indices ! (i * max_nn + j)) [0..<max_nn])"

section \<open>RemoveStatisticalOutliers\<close>

text \<open>
  The distances of the nearest-neighbour search are \<^verbatim>\<open>float\<close>s that the source tests with
  \<^verbatim>\<open>isinf\<close>, and the statistics divide by a count that can be zero: here a \<^verbatim>\<open>float\<close> is a real
  number, an infinity or NaN, with the IEEE rules for the special values and no rounding.
  Zero has no sign: a division by zero takes the sign of the numerator.
\<close>

datatype flt = Fin real | PInf | NInf | NaN

fun isinf :: "flt \<Rightarrow> bool" where
  "isinf PInf = True"
| "isinf NInf = True"
| "isinf _ = False"

fun flt_neg :: "flt \<Rightarrow> flt" where
  "flt_neg (Fin a) = Fin (- a)"
| "flt_neg PInf = NInf"
| "flt_neg NInf = PInf"
| "flt_neg NaN = NaN"

fun flt_add :: "flt \<Rightarrow> flt \<Rightarrow> flt" where
  "flt_add (Fin a) (Fin b) = Fin (a + b)"
| "flt_add NaN _ = NaN"
| "flt_add _ NaN = NaN"
| "flt_add PInf NInf = NaN"
| "flt_add NInf PInf = NaN"
| "flt_add PInf _ = PInf"
| "flt_add _ PInf = PInf"
| "flt_add NInf _ = NInf"
| "flt_add _ NInf = NInf"

definition flt_sub :: "flt \<Rightarrow> flt \<Rightarrow> flt" where
  "flt_sub x y = flt_add x (flt_neg y)"

fun flt_mul :: "flt \<Rightarrow> flt \<Rightarrow> flt" where
  "flt_mul (Fin a) (Fin b) = Fin (a * b)"
| "flt_mul NaN _ = NaN"
| "flt_mul _ NaN = NaN"
| "flt_mul PInf (Fin b) = (if b = 0 then NaN else if 0 < b then PInf else NInf)"
| "flt_mul NInf (Fin b) = (if b = 0 then NaN else if 0 < b then NInf else PInf)"
| "flt_mul (Fin a) PInf = (if a = 0 then NaN else if 0 < a then PInf else NInf)"
| "flt_mul (Fin a) NInf = (if a = 0 then NaN else if 0 < a then NInf else PInf)"
| "flt_mul PInf PInf = PInf"
| "flt_mul NInf NInf = PInf"
| "flt_mul PInf NInf = NInf"
| "flt_mul NInf PInf = NInf"

fun flt_div :: "flt \<Rightarrow> flt \<Rightarrow> flt" where
  "flt_div (Fin a) (Fin b) =
     (if b = 0 then (if a = 0 then NaN else if 0 < a then PInf else NInf) else Fin (a / b))"
| "flt_div NaN _ = NaN"
| "flt_div _ NaN = NaN"
| "flt_div (Fin a) _ = Fin 0"
| "flt_div PInf (Fin b) = (if 0 \<le> b then PInf else NInf)"
| "flt_div NInf (Fin b) = (if 0 \<le> b then NInf else PInf)"
| "flt_div _ _ = NaN"

fun flt_lt :: "flt \<Rightarrow> flt \<Rightarrow> bool" where
  "flt_lt (Fin a) (Fin b) = (a < b)"
| "flt_lt NaN _ = False"
| "flt_lt _ NaN = False"
| "flt_lt NInf NInf = False"
| "flt_lt NInf _ = True"
| "flt_lt PInf _ = False"
| "flt_lt _ PInf = True"
| "flt_lt _ NInf = False"

definition flt_le :: "flt \<Rightarrow> flt \<Rightarrow> bool" where
  "flt_le x y = (flt_lt x y \<or> (x = y \<and> x \<noteq> NaN))"

text \<open>CUDA's \<^verbatim>\<open>max\<close> on floats: a NaN argument gives the other argument.\<close>

definition flt_max :: "flt \<Rightarrow> flt \<Rightarrow> flt" where
  "flt_max x y = (if x = NaN then y else if y = NaN then x else if flt_lt x y then y else x)"

fun flt_sqrt :: "flt \<Rightarrow> flt" where
  "flt_sqrt (Fin a) = (if 0 \<le> a then Fin (sqrt a) else NaN)"
| "flt_sqrt PInf = PInf"
| "flt_sqrt _ = NaN"

definition check_distance_threshold_functor :: "flt \<Rightarrow> nat \<times> flt \<Rightarrow> bool" where
  "check_distance_threshold_functor distance_threshold x =
     (let d = snd x in flt_lt (Fin 0) d \<and> flt_lt d distance_threshold)"

text \<open>
  \<open>SearchKNN geometry query knn\<close> stands for \<^verbatim>\<open>SetGeometry\<close> followed by \<^verbatim>\<open>SearchKNN\<close> of
  \<^verbatim>\<open>KDTreeFlann\<close>: \<open>knn\<close> index and distance slots per query point. The reduction operator, the
  averaging functor and the two \<^verbatim>\<open>transform_reduce\<close> functors are the lambdas of the source.
\<close>

definition RemoveStatisticalOutliers ::
  "bool \<Rightarrow> bool \<Rightarrow> (PointCloud \<Rightarrow> Vector3f list \<Rightarrow> nat \<Rightarrow> int list \<times> flt list)
   \<Rightarrow> PointCloud \<Rightarrow> nat \<Rightarrow> flt \<Rightarrow> error + (PointCloud \<times> nat list)" where
  "RemoveStatisticalOutliers has_normals has_colors SearchKNN this nb_neighbors std_ratio =
     (case (if nb_neighbors < 1 \<or> flt_le std_ratio (Fin 0)
            then LogError (''[RemoveStatisticalOutliers] Illegal input parameters, number '' @
                           ''of neighbors and standard deviation ratio must be positive'')
            else Inr ()) of
        Inl e \<Rightarrow> Inl e
      | Inr _ \<Rightarrow>
          if points this = [] then Inr (make_shared_PointCloud, [])
          else
            (case SearchKNN this (points this) nb_neighbors of
               (tmp_indices, distances) \<Rightarrow>
                 (let n_pt = length (points this);
                      avg_distances = replicate n_pt (Fin 0);
                      indices = replicate n_pt (0 :: nat);
                      counts = replicate n_pt (0 :: nat);
                      key_range = repeated_range [0..<n_pt] nb_neighbors;
                      binary_op = (\<lambda>rhs lhs.
                        let rd = snd rhs; rc = fst rhs;
                            rd' = (if isinf rd \<or> flt_lt rd (Fin 0) then Fin 0 else rd);
                            rc' = (if isinf rd \<or> flt_lt rd (Fin 0) then 0 else rc);
                            ld = snd lhs; lc = fst lhs;
                            ld' = (if isinf ld \<or> flt_lt ld (Fin 0) then Fin 0 else ld);
                            lc' = (if isinf ld \<or> flt_lt ld (Fin 0) then 0 else lc)
                        in (rc' + lc', flt_add rd' ld'))
                  in if length distances < length key_range then Inl OutOfBounds
                     else
                       (case write_range
                              (reduce_by_key (=) binary_op
                                 (zip key_range (zip (replicate (length key_range) (1 :: nat))
                                                     distances)))
                              (zip counts avg_distances) of
                          Inl e \<Rightarrow> Inl e
                        | Inr buf \<Rightarrow>
                            (let counts' = map fst buf;
                                 avg_distances' =
                                   transform2
                                     (\<lambda>avg cnt. if 0 < cnt then flt_div avg (Fin (real cnt))
                                                 else Fin (- 1))
                                     (map snd buf) counts';
                                 mean_and_count =
                                   foldl (\<lambda>a b. (flt_add (fst a) (fst b), snd a + snd b))
                                     (Fin 0, 0 :: nat)
                                     (map (\<lambda>x. (flt_max x (Fin 0),
                                                 if flt_le (Fin 0) x then 1 else 0))
                                        avg_distances');
                                 valid_distances = snd mean_and_count
                             in if valid_distances = 0 then Inr (make_shared_PointCloud, [])
                                else
                                  (let cloud_mean = flt_div (fst mean_and_count)
                                                      (Fin (real valid_distances));
                                       sq_sum =
                                         foldl flt_add (Fin 0)
                                           (map (\<lambda>x. if flt_lt (Fin 0) x
                                                      then flt_mul (flt_sub x cloud_mean)
                                                                   (flt_sub x cloud_mean)
                                                      else Fin 0)
                                              avg_distances');
                                       std_dev = flt_sqrt (flt_div sq_sum
                                                   (Fin (real (valid_distances - 1))));
                                       distance_threshold =
                                         flt_add cloud_mean (flt_mul std_ratio std_dev);
                                       selected =
                                         filter (check_distance_threshold_functor
                                                   distance_threshold)
                                           (enumerate 0 avg_distances')
                                   in (case write_range (map fst selected) indices of
                                         Inl e \<Rightarrow> Inl e
                                       | Inr indices' \<Rightarrow>
                                           (let indices'' = resize (length selected) 0 indices'
                                            in (case SelectByIndex has_normals has_colors this
                                                       indices'' False of
                                                  Inl e \<Rightarrow> Inl e
                                                | Inr output \<Rightarrow> Inr (output, indices''))))))))))"

text \<open>
  In the words of the specification: the mean and the standard deviation with Bessel's
  correction of the valid (finite, non-negative) average distances, and the threshold
  \<open>mean + std_ratio * std_dev\<close> below which a point is kept.
\<close>

definition valid_average_distances :: "flt list \<Rightarrow> real list" where
  "valid_average_distances ds = concat (map (\<lambda>d. case d of Fin a \<Rightarrow> (if 0 \<le> a then [a] else [])
                                                | _ \<Rightarrow> []) ds)"

definition mean_of :: "real list \<Rightarrow> real" where
  "mean_of xs = sum_list xs / real (length xs)"

definition bessel_std_dev :: "real list \<Rightarrow> real" where
  "bessel_std_dev xs =
     sqrt (sum_list (map (\<lambda>x. (x - mean_of xs) * (x - mean_of xs)) xs) / real (length xs - 1))"

definition spec_distance_threshold :: "flt list \<Rightarrow> real \<Rightarrow> real" where
  "spec_distance_threshold ds std_ratio =
     mean_of (valid_average_distances ds) + std_ratio * bessel_std_dev (valid_average_distances ds)"

section \<open>Calls on objects\<close>







section \<open>Graph<Dim>::CreateFromAxisAlignedBoundingBox\<close>






















section \<open>Facts about the primitives\<close>

lemma length_resize: "length (resize n z xs) = n"
  by (simp add: resize_def)


lemma write_range_full: "length xs = length buf \<Longrightarrow> write_range xs buf = Inr xs"
  by (simp add: write_range_def)

lemma gather_in_range:
  assumes "\<forall>i\<in>set indices. i < length input" and "length result = length indices"
  shows "gather indices input result = Inr (map (\<lambda>i. input ! i) indices)"
  using assms by (simp add: gather_def list_all_iff write_range_full)

lemma set_difference_filter:
  "sorted_wrt (<) xs \<Longrightarrow> sorted ys \<Longrightarrow>
   set_difference xs ys = filter (\<lambda>x. x \<notin> set ys) xs"
proof (induction xs ys rule: set_difference.induct)
  case (1 ys)
  then show ?case by simp
next
  case (2 x xs)
  then show ?case by simp
next
  case (3 x xs y ys)
  show ?case
  proof (cases "x < y")
    case True
    with 3 have "x \<notin> set (y # ys)" by auto
    with True 3 show ?thesis by simp
  next
    case False
    note nlt = this
    show ?thesis
    proof (cases "y < x")
      case True
      from 3 have "\<forall>z\<in>set xs. x < z" by simp
      with True have "filter (\<lambda>z. z \<notin> set (y # ys)) (x # xs) = filter (\<lambda>z. z \<notin> set ys) (x # xs)"
        by (intro filter_cong) auto
      with True nlt 3 show ?thesis by simp
    next
      case False
      with nlt have eq: "x = y" by simp
      from 3 have gt: "\<forall>z\<in>set xs. x < z" by simp
      have "filter (\<lambda>z. z \<notin> set (y # ys)) xs = filter (\<lambda>z. z \<notin> set ys) xs"
        using gt eq by (intro filter_cong) auto
      with eq 3 show ?thesis by simp
    qed
  qed
qed

lemma SelectByIndexImpl_in_range:
  assumes "\<forall>i\<in>set indices. i < length (points src)"
    and "has_normals \<longrightarrow> length (normals src) = length (points src)"
    and "has_colors \<longrightarrow> length (colors src) = length (points src)"
  shows "SelectByIndexImpl has_normals has_colors src make_shared_PointCloud indices =
         Inr \<lparr>points = map (\<lambda>i. points src ! i) indices,
              normals = (if has_normals then map (\<lambda>i. normals src ! i) indices else []),
              colors = (if has_colors then map (\<lambda>i. colors src ! i) indices else [])\<rparr>"
  using assms
  by (simp add: SelectByIndexImpl_def make_shared_PointCloud_def Let_def gather_in_range
      length_resize)

lemma length_filter_notin:
  assumes "distinct indices" and "\<forall>i\<in>set indices. i < n"
  shows "length (filter (\<lambda>i. i \<notin> set indices) [0..<n]) = n - length indices"
proof -
  have "distinct (filter (\<lambda>i. i \<notin> set indices) [0..<n])" by simp
  then have "length (filter (\<lambda>i. i \<notin> set indices) [0..<n]) =
             card (set (filter (\<lambda>i. i \<notin> set indices) [0..<n]))"
    by (simp only: distinct_card)
  also have "set (filter (\<lambda>i. i \<notin> set indices) [0..<n]) = {..<n} - set indices" by auto
  also have "card ({..<n} - set indices) = card {..<n} - card (set indices)"
    using assms by (intro card_Diff_subset) auto
  also have "\<dots> = n - length indices" using assms by (simp add: distinct_card)
  finally show ?thesis .
qed

lemma inverted_indices:
  assumes "distinct indices" and "\<forall>i\<in>set indices. i < n"
  shows "write_range (set_difference [0..<n] (sort indices)) (replicate (n - length indices) 0)
         = Inr (filter (\<lambda>i. i \<notin> set indices) [0..<n])"
proof -
  have "set_difference [0..<n] (sort indices) = filter (\<lambda>i. i \<notin> set (sort indices)) [0..<n]"
    by (rule set_difference_filter) (simp_all add: sorted_wrt_upt)
  then show ?thesis using length_filter_notin [OF assms]
    by (simp add: write_range_full)
qed

section \<open>SelectByIndex selects by position\<close>

text \<open>
  Claim C4, as the code has it. When every index is a position of the input (and, with
  \<open>invert\<close>, no index occurs twice), \<^verbatim>\<open>SelectByIndex\<close> returns the cloud whose i-th point, normal
  and color are the input's elements at position \<open>indices[i]\<close>; with \<open>invert\<close> it returns, in
  ascending order, the elements at exactly the positions of \<open>[0, n)\<close> that are not in
  \<open>indices\<close>, and there are \<open>n - |indices|\<close> of them. The normals and colors are gathered when
  \<^verbatim>\<open>HasNormals()\<close> and \<^verbatim>\<open>HasColors()\<close> hold, which they do only for buffers as long as the points.
\<close>

theorem SelectByIndex_gather:
  assumes "\<forall>i\<in>set indices. i < length (points this)"
    and "invert \<longrightarrow> distinct indices"
    and "has_normals \<longrightarrow> length (normals this) = length (points this)"
    and "has_colors \<longrightarrow> length (colors this) = length (points this)"
  shows "SelectByIndex has_normals has_colors this indices invert =
         (let sel = (if invert then filter (\<lambda>i. i \<notin> set indices) [0..<length (points this)]
                     else indices)
          in Inr \<lparr>points = map (\<lambda>i. points this ! i) sel,
                  normals = (if has_normals then map (\<lambda>i. normals this ! i) sel else []),
                  colors = (if has_colors then map (\<lambda>i. colors this ! i) sel else [])\<rparr>)
         \<and> (invert \<longrightarrow> length (filter (\<lambda>i. i \<notin> set indices) [0..<length (points this)]) =
                          length (points this) - length indices)"
proof (cases invert)
  case False
  then show ?thesis using assms
    by (simp add: SelectByIndex_def SelectByIndexImpl_in_range)
next
  case True
  with assms have d: "distinct indices" by simp
  have le: "length indices \<le> length (points this)"
    using length_filter_notin [OF d assms(1)] d assms(1)
    by (metis atLeast0LessThan card_atLeastLessThan card_mono distinct_card finite_atLeastLessThan diff_zero subsetI atLeastLessThan_iff le0)
  have sel: "\<forall>i\<in>set (filter (\<lambda>i. i \<notin> set indices) [0..<length (points this)]). i < length (points this)"
    by simp
  show ?thesis using True le assms(3,4)
    by (simp add: SelectByIndex_def Let_def inverted_indices [OF d assms(1)]
        SelectByIndexImpl_in_range [OF sel] length_filter_notin [OF d assms(1)])
qed

theorem SelectByIndex_gather_witness:
  "2 < length (points \<lparr>points = [(0, 0, 0), (1, 1, 1), (2, 2, 2)],
        normals = [(1, 0, 0), (0, 1, 0), (0, 0, 1)], colors = []\<rparr>)
   \<and> distinct [2 :: nat]
   \<and> SelectByIndex True False
        \<lparr>points = [(0, 0, 0), (1, 1, 1), (2, 2, 2)],
         normals = [(1, 0, 0), (0, 1, 0), (0, 0, 1)], colors = []\<rparr> [2] True
       = Inr \<lparr>points = [(0, 0, 0), (1, 1, 1)], normals = [(1, 0, 0), (0, 1, 0)], colors = []\<rparr>"
  using SelectByIndex_gather [of "[2]" "\<lparr>points = [(0, 0, 0), (1, 1, 1), (2, 2, 2)],
        normals = [(1, 0, 0), (0, 1, 0), (0, 0, 1)], colors = []\<rparr>" True True False]
  by (simp add: upt_rec)

text \<open>
  Claim C4 as stated fails for an index list with a repeated index: for two points and
  \<open>indices = [0, 0]\<close>, \<open>n_out\<close> is 0 while the set difference holds position 1, which is written
  past the end of the empty buffer.
\<close>

theorem SelectByIndex_repeated_index_counterexample:
  "SelectByIndex False False \<lparr>points = [(0, 0, 0), (1, 1, 1)], normals = [], colors = []\<rparr> [0, 0] True
   = Inl OutOfBounds"
  by (simp add: SelectByIndex_def Let_def write_range_def sort_key_def insort_key.simps)

lemma strided_range_dvd:
  assumes "0 < k" and "k dvd length xs"
  shows "strided_range xs k = map (\<lambda>i. xs ! (k * i)) [0..<length xs div k]"
proof -
  from assms obtain m where m: "length xs = k * m" by (auto simp: dvd_def)
  have "k \<noteq> 0" using assms(1) by simp
  then have "(k * m + (k - 1)) div k = m + (k - 1) div k"
    by (rule div_mult_self4)
  moreover have "(k - 1) div k = 0" using assms(1) by simp
  ultimately have "(k * m + (k - 1)) div k = m" by simp
  with m assms(1) show ?thesis by (simp add: strided_range_def)
qed

section \<open>UniformDownSample takes every k-th element\<close>

text \<open>
  Claim C9, as the code has it by design. For a cloud of \<open>n\<close> points and a sample rate
  \<open>k \<ge> 1\<close> that divides \<open>n\<close>, \<^verbatim>\<open>UniformDownSample\<close> returns exactly \<open>n / k\<close> points, the input
  points at the indices \<open>0, k, 2k, ...\<close>, with the normals and colors, when present, taken at
  the same indices in the same order; for \<open>k = 0\<close> it reports the error by the exception of
  \<^verbatim>\<open>LogError\<close> and returns no cloud.
\<close>

theorem UniformDownSample_every_k:
  assumes "0 < every_k_points \<longrightarrow> every_k_points dvd length (points this)"
    and "has_normals \<longrightarrow> length (normals this) = length (points this)"
    and "has_colors \<longrightarrow> length (colors this) = length (points this)"
  shows "UniformDownSample has_normals has_colors this every_k_points =
         (if every_k_points = 0 then Inl (RuntimeError ''[UniformDownSample] Illegal sample rate.'')
          else let sel = map (\<lambda>i. every_k_points * i) [0..<length (points this) div every_k_points]
               in Inr \<lparr>points = map (\<lambda>i. points this ! i) sel,
                       normals = (if has_normals then map (\<lambda>i. normals this ! i) sel else []),
                       colors = (if has_colors then map (\<lambda>i. colors this ! i) sel else [])\<rparr>)"
proof (cases "every_k_points = 0")
  case True
  then show ?thesis by (simp add: UniformDownSample_def LogError_def)
next
  case False
  then have k: "0 < every_k_points" by simp
  with assms(1) have d: "every_k_points dvd length (points this)" by simp
  have p: "strided_range (points this) every_k_points =
           map (\<lambda>i. points this ! (every_k_points * i)) [0..<length (points this) div every_k_points]"
    using strided_range_dvd [OF k d] .
  have n: "has_normals \<Longrightarrow> strided_range (normals this) every_k_points =
           map (\<lambda>i. normals this ! (every_k_points * i)) [0..<length (points this) div every_k_points]"
    using strided_range_dvd [OF k, of "normals this"] assms(2) d by simp
  have c: "has_colors \<Longrightarrow> strided_range (colors this) every_k_points =
           map (\<lambda>i. colors this ! (every_k_points * i)) [0..<length (points this) div every_k_points]"
    using strided_range_dvd [OF k, of "colors this"] assms(3) d by simp
  show ?thesis using False p n c
    by (simp add: UniformDownSample_def make_shared_PointCloud_def Let_def write_range_full
        length_resize comp_def)
qed

theorem UniformDownSample_every_k_witness:
  "UniformDownSample False True
     \<lparr>points = [(0, 0, 0), (1, 1, 1), (2, 2, 2), (3, 3, 3)], normals = [],
      colors = [(1, 0, 0), (0, 1, 0), (0, 0, 1), (1, 1, 1)]\<rparr> 2
   = Inr \<lparr>points = [(0, 0, 0), (2, 2, 2)], normals = [], colors = [(1, 0, 0), (0, 0, 1)]\<rparr>"
  using UniformDownSample_every_k [of 2 "\<lparr>points = [(0, 0, 0), (1, 1, 1), (2, 2, 2), (3, 3, 3)],
      normals = [], colors = [(1, 0, 0), (0, 1, 0), (0, 0, 1), (1, 1, 1)]\<rparr>" False True]
  by (simp add: upt_rec)

text \<open>
  Claim C9 as stated fails twice. For three points and \<open>k = 2\<close> the output buffer has
  \<open>3 / 2 = 1\<close> element while the strided range has the two elements at positions 0 and 2,
  as the examples above \<^verbatim>\<open>strided_range\<close> in \<^verbatim>\<open>range.h\<close> say: the copy writes past the end
  of the buffer. For \<open>k = 0\<close> the call ends with the exception, not with an empty cloud.
\<close>

theorem UniformDownSample_counterexample:
  "UniformDownSample False False
     \<lparr>points = [(0, 0, 0), (1, 1, 1), (2, 2, 2)], normals = [], colors = []\<rparr> 2
   = Inl OutOfBounds
   \<and> UniformDownSample False False
     \<lparr>points = [(0, 0, 0), (1, 1, 1), (2, 2, 2)], normals = [], colors = []\<rparr> 0
   = Inl (RuntimeError ''[UniformDownSample] Illegal sample rate.'')"
  by (simp add: UniformDownSample_def make_shared_PointCloud_def Let_def write_range_def
      strided_range_def resize_def LogError_def)

section \<open>Attribute buffers of the outputs\<close>

lemma write_range_length: "write_range xs buf = Inr r \<Longrightarrow> length r = length buf"
  by (auto simp: write_range_def split: if_splits)

lemma gather_length: "gather indices input result = Inr r \<Longrightarrow> length r = length result"
  by (auto simp: gather_def dest: write_range_length split: if_splits)

lemma SelectByIndexImpl_lengths:
  assumes "SelectByIndexImpl has_normals has_colors src make_shared_PointCloud indices = Inr out"
  shows "length (points out) = length indices
       \<and> length (normals out) = (if has_normals then length indices else 0)
       \<and> length (colors out) = (if has_colors then length indices else 0)"
  using assms
  by (auto simp: SelectByIndexImpl_def make_shared_PointCloud_def Let_def length_resize
      dest!: gather_length split: sum.splits if_splits)

lemma SelectByIndex_lengths:
  assumes "SelectByIndex has_normals has_colors this indices invert = Inr out"
  shows "length (normals out) = (if has_normals then length (points out) else 0)
       \<and> length (colors out) = (if has_colors then length (points out) else 0)"
  using assms
  by (auto simp: SelectByIndex_def Let_def dest!: SelectByIndexImpl_lengths
      split: sum.splits if_splits)

lemma UniformDownSample_lengths:
  assumes "UniformDownSample has_normals has_colors this every_k_points = Inr out"
  shows "length (normals out) = (if has_normals then length (points out) else 0)
       \<and> length (colors out) = (if has_colors then length (points out) else 0)"
  using assms
  by (auto simp: UniformDownSample_def make_shared_PointCloud_def Let_def length_resize LogError_def
      dest!: write_range_length split: sum.splits if_splits)

lemma VoxelDownSample_points_lengths:
  assumes "VoxelDownSample_points n keys this output counts = Inr out"
  shows "normals out = normals output \<and> colors out = colors output"
  using assms
  by (auto simp: VoxelDownSample_points_def Let_def split: sum.splits prod.splits)

lemma VoxelDownSample_normals_lengths:
  assumes "VoxelDownSample_normals n keys this output counts = Inr out"
  shows "length (normals out) = length (points out) \<and> colors out = colors output"
  using assms
  by (auto simp: VoxelDownSample_normals_def Let_def length_resize split: sum.splits prod.splits)

lemma VoxelDownSample_colors_lengths:
  assumes "VoxelDownSample_colors n keys this output counts = Inr out"
  shows "length (colors out) = length (points out) \<and> normals out = normals output"
  using assms
  by (auto simp: VoxelDownSample_colors_def Let_def length_resize split: sum.splits prod.splits)

lemma VoxelDownSample_normals_colors_lengths:
  assumes "VoxelDownSample_normals_colors n keys this output counts = Inr out"
  shows "length (normals out) = length (points out) \<and> length (colors out) = length (points out)"
  using assms
  by (auto simp: VoxelDownSample_normals_colors_def Let_def length_resize
      split: sum.splits prod.splits)

lemma VoxelDownSample_lengths:
  assumes "VoxelDownSample has_normals has_colors min_bound max_bound this voxel_size = Inr (lg, out)"
  shows "length (normals out) = (if has_normals then length (points out) else 0)
       \<and> length (colors out) = (if has_colors then length (points out) else 0)"
  using assms
  by (auto simp: VoxelDownSample_def make_shared_PointCloud_def Let_def
      dest!: VoxelDownSample_points_lengths VoxelDownSample_normals_lengths
        VoxelDownSample_colors_lengths VoxelDownSample_normals_colors_lengths
      split: sum.splits if_splits)

text \<open>
  Claim C7, as the code has it. Whenever \<^verbatim>\<open>SelectByIndex\<close>, \<^verbatim>\<open>VoxelDownSample\<close> or
  \<^verbatim>\<open>UniformDownSample\<close> returns a cloud, its normals buffer is as long as its points buffer if
  the input \<^verbatim>\<open>HasNormals()\<close> and empty otherwise, and its colors buffer is as long as its points
  buffer if the input \<^verbatim>\<open>HasColors()\<close> and empty otherwise. So a buffer of the output is
  non-empty exactly when the input has the attribute and the output has a point.
\<close>

theorem attribute_buffers_follow_points:
  "(SelectByIndex has_normals has_colors this indices invert = Inr out \<longrightarrow>
      length (normals out) = (if has_normals then length (points out) else 0) \<and>
      length (colors out) = (if has_colors then length (points out) else 0))
   \<and> (VoxelDownSample has_normals has_colors min_bound max_bound this voxel_size = Inr (lg, out) \<longrightarrow>
      length (normals out) = (if has_normals then length (points out) else 0) \<and>
      length (colors out) = (if has_colors then length (points out) else 0))
   \<and> (UniformDownSample has_normals has_colors this every_k_points = Inr out \<longrightarrow>
      length (normals out) = (if has_normals then length (points out) else 0) \<and>
      length (colors out) = (if has_colors then length (points out) else 0))"
  using SelectByIndex_lengths [of has_normals has_colors this indices invert out]
    VoxelDownSample_lengths [of has_normals has_colors min_bound max_bound this voxel_size lg out]
    UniformDownSample_lengths [of has_normals has_colors this every_k_points out]
  by blast

theorem attribute_buffers_follow_points_witness:
  "SelectByIndex True False
     \<lparr>points = [(0, 0, 0), (1, 0, 0)], normals = [(0, 0, 2), (0, 0, 2)], colors = []\<rparr> [1] False
     = Inr \<lparr>points = [(1, 0, 0)], normals = [(0, 0, 2)], colors = []\<rparr>
   \<and> length (normals \<lparr>points = [(1, 0, 0)], normals = [(0, 0, 2)], colors = []\<rparr>) =
       length (points \<lparr>points = [(1, 0, 0)], normals = [(0, 0, 2)], colors = []\<rparr>)
   \<and> VoxelDownSample True False (0, 0, 0) (1, 0, 0)
     \<lparr>points = [(0, 0, 0), (1, 0, 0)], normals = [(0, 0, 2), (0, 0, 2)], colors = []\<rparr> 4
     = Inr ([Debug ''Pointcloud down sampled from {:d} points to {:d} points.\<newline>'' [2, 1]],
            \<lparr>points = [(1 / 2, 0, 0)], normals = [(0, 0, 1)], colors = []\<rparr>)
   \<and> length (normals \<lparr>points = [(1 / 2, 0, 0)], normals = [(0, 0, 1)], colors = []\<rparr>) =
       length (points \<lparr>points = [(1 / 2, 0, 0)], normals = [(0, 0, 1)], colors = []\<rparr>)
   \<and> UniformDownSample True False
     \<lparr>points = [(0, 0, 0), (1, 0, 0)], normals = [(0, 0, 2), (0, 0, 2)], colors = []\<rparr> 1
     = Inr \<lparr>points = [(0, 0, 0), (1, 0, 0)], normals = [(0, 0, 2), (0, 0, 2)], colors = []\<rparr>
   \<and> length (normals \<lparr>points = [(0, 0, 0), (1, 0, 0)], normals = [(0, 0, 2), (0, 0, 2)],
                         colors = []\<rparr>) =
       length (points \<lparr>points = [(0, 0, 0), (1, 0, 0)], normals = [(0, 0, 2), (0, 0, 2)],
                        colors = []\<rparr>)"
  using attribute_buffers_follow_points [of True False
      "\<lparr>points = [(0, 0, 0), (1, 0, 0)], normals = [(0, 0, 2), (0, 0, 2)], colors = []\<rparr>"
      "[1]" False "\<lparr>points = [(1, 0, 0)], normals = [(0, 0, 2)], colors = []\<rparr>"]
  by (simp add: SelectByIndex_def SelectByIndexImpl_def UniformDownSample_def
      VoxelDownSample_def VoxelDownSample_normals_def make_shared_PointCloud_def Let_def
      gather_def strided_range_def upt_rec
      write_range_def resize_def sort_by_key_def compute_key_functor_def sub3f_def add3f_def
      scale3f_def div3f_def maxCoeff_def INT_MAX_def transform2_def zero3f_def
      add_tuple_functor_2_def normalize_and_devide_tuple_functor_2_def normalize_def squaredNorm_def)

text \<open>
  Claim C7 as stated fails for an output without points: selecting no index from a cloud
  with normals gives an empty normals buffer, although the input has normals.
\<close>

theorem attribute_presence_counterexample:
  "SelectByIndex True False
     \<lparr>points = [(0, 0, 0), (1, 0, 0)], normals = [(0, 0, 2), (0, 0, 2)], colors = []\<rparr> [] False
     = Inr \<lparr>points = [], normals = [], colors = []\<rparr>"
  by (simp add: SelectByIndex_def SelectByIndexImpl_def make_shared_PointCloud_def Let_def
      gather_def write_range_def resize_def)

section \<open>VoxelDownSample: one mean per occupied cell\<close>


lemma reduce_by_key_sorted:
  assumes "sorted (map fst (kvs :: ('a::linorder \<times> 'b) list))"
  shows "reduce_by_key (=) f kvs =
         map (\<lambda>k. foldl f (hd (map snd (filter (\<lambda>kv. fst kv = k) kvs)))
                           (tl (map snd (filter (\<lambda>kv. fst kv = k) kvs))))
             (remdups (map fst kvs))"
  using assms
proof (induction "(=) :: 'a \<Rightarrow> 'a \<Rightarrow> bool" f kvs rule: reduce_by_key.induct)
  case (1 f)
  then show ?case by simp
next
  case (2 f k v)
  then show ?case by simp
next
  case (3 f k v k' v' rest)
  show ?case
  proof (cases "k = k'")
    case True
    have s: "sorted (map fst ((k', f v v') # rest))" using 3(3) by simp
    have "reduce_by_key (=) f ((k, v) # (k', v') # rest) =
          reduce_by_key (=) f ((k', f v v') # rest)" using True by simp
    also have "\<dots> = map (\<lambda>c. foldl f (hd (map snd (filter (\<lambda>kv. fst kv = c) ((k', f v v') # rest))))
                           (tl (map snd (filter (\<lambda>kv. fst kv = c) ((k', f v v') # rest)))))
             (remdups (map fst ((k', f v v') # rest)))"
      using 3(1) [OF True s] .
    also have "\<dots> = map (\<lambda>c. foldl f (hd (map snd (filter (\<lambda>kv. fst kv = c) ((k, v) # (k', v') # rest))))
                           (tl (map snd (filter (\<lambda>kv. fst kv = c) ((k, v) # (k', v') # rest)))))
             (remdups (map fst ((k, v) # (k', v') # rest)))"
      using True by (auto intro!: map_cong)
    finally show ?thesis .
  next
    case False
    define G where "G = (\<lambda>(xs :: ('a \<times> 'b) list) c. foldl f (hd (map snd (filter (\<lambda>kv. fst kv = c) xs)))
                                     (tl (map snd (filter (\<lambda>kv. fst kv = c) xs))))"
    have s: "sorted (map fst ((k', v') # rest))" using 3(3) by simp
    have lt: "k \<notin> set (map fst ((k', v') # rest))"
      using 3(3) False by auto
    have A: "reduce_by_key (=) f ((k, v) # (k', v') # rest) =
          v # reduce_by_key (=) f ((k', v') # rest)" using False by simp
    have B: "reduce_by_key (=) f ((k', v') # rest) =
          map (G ((k', v') # rest)) (remdups (map fst ((k', v') # rest)))"
      unfolding G_def using 3(2) [OF False s] .
    have C: "map (G ((k', v') # rest)) (remdups (map fst ((k', v') # rest))) =
             map (G ((k, v) # (k', v') # rest)) (remdups (map fst ((k', v') # rest)))"
    proof (intro map_cong refl)
      fix c assume "c \<in> set (remdups (map fst ((k', v') # rest)))"
      then have "c \<in> set (map fst ((k', v') # rest))" by (simp only: set_remdups)
      with lt have "c \<noteq> k" by blast
      then show "G ((k', v') # rest) c = G ((k, v) # (k', v') # rest) c"
        by (simp add: G_def)
    qed
    have "filter (\<lambda>kv. fst kv = k) ((k', v') # rest) = []"
      using lt by (auto simp: filter_empty_conv)
    then have D: "G ((k, v) # (k', v') # rest) k = v" by (simp add: G_def)
    have E: "remdups (map fst ((k, v) # (k', v') # rest)) =
             k # remdups (map fst ((k', v') # rest))"
      using lt by simp
    have "reduce_by_key (=) f ((k, v) # (k', v') # rest) =
          map (G ((k, v) # (k', v') # rest)) (remdups (map fst ((k, v) # (k', v') # rest)))"
      unfolding A B C E using D by simp
    then show ?thesis unfolding G_def .
  qed
qed

lemma remdups_sorted_cells:
  assumes "sorted ks"
  shows "remdups ks = sorted_list_of_set (set ks)"
proof (rule sorted_distinct_set_unique)
  show "sorted (remdups ks)" using assms by (rule sorted_remdups)
qed simp_all


































section \<open>RemoveRadiusOutliers keeps the points with enough neighbours\<close>

lemma SelectByIndex_plain:
  assumes "\<forall>i\<in>set indices. i < length (points this)"
    and "has_normals \<longrightarrow> length (normals this) = length (points this)"
    and "has_colors \<longrightarrow> length (colors this) = length (points this)"
  shows "SelectByIndex has_normals has_colors this indices False =
         Inr \<lparr>points = map (\<lambda>i. points this ! i) indices,
              normals = (if has_normals then map (\<lambda>i. normals this ! i) indices else []),
              colors = (if has_colors then map (\<lambda>i. colors this ! i) indices else [])\<rparr>"
  using assms by (simp add: SelectByIndex_def SelectByIndexImpl_in_range)

lemma repeated_range_upt:
  assumes "0 < r"
  shows "repeated_range [0..<n] r = map (\<lambda>i. i div r) [0..<r * n]"
proof -
  have "[0..<n] ! (i div r) = i div r" if "i < r * n" for i
  proof -
    from that have "i div r < n" using assms by (simp add: less_mult_imp_div_less mult.commute)
    then show ?thesis by simp
  qed
  then show ?thesis by (simp add: repeated_range_def)
qed

lemma segment_positions:
  assumes "0 < r" and "k < n"
  shows "filter (\<lambda>i. i div r = k) [0..<r * n] = map (\<lambda>j. k * r + j) [0..<r]"
proof (rule sorted_distinct_set_unique)
  show "sorted (filter (\<lambda>i. i div r = k) [0..<r * n])" by (simp add: sorted_wrt_filter)
  show "distinct (filter (\<lambda>i. i div r = k) [0..<r * n])" by simp
  show "sorted (map (\<lambda>j. k * r + j) [0..<r])"
    by (simp add: sorted_iff_nth_mono)
  show "distinct (map (\<lambda>j. k * r + j) [0..<r])"
    by (simp add: distinct_map inj_on_def)
  show "set (filter (\<lambda>i. i div r = k) [0..<r * n]) = set (map (\<lambda>j. k * r + j) [0..<r])"
  proof (intro set_eqI iffI)
    fix i assume "i \<in> set (filter (\<lambda>i. i div r = k) [0..<r * n])"
    then have d: "i div r = k" by simp
    have "i = k * r + i mod r" using d by (metis div_mult_mod_eq)
    moreover have "i mod r < r" using assms(1) by simp
    ultimately show "i \<in> set (map (\<lambda>j. k * r + j) [0..<r])" by auto
  next
    fix i assume "i \<in> set (map (\<lambda>j. k * r + j) [0..<r])"
    then have "k * r \<le> i" "i < k * r + r" by auto
    then have j: "i - k * r < r" "i = k * r + (i - k * r)" by simp_all
    define j where "j = i - k * r"
    have j: "j < r" "i = k * r + j" using j unfolding j_def by simp_all
    then have d: "i div r = k" using assms(1) by simp
    have "k * r + j < (k + 1) * r" using j by simp
    also have "\<dots> \<le> n * r" using assms(2) by (intro mult_le_mono1) simp
    finally have "i < r * n" using j by (simp add: mult.commute)
    with d show "i \<in> set (filter (\<lambda>i. i div r = k) [0..<r * n])" by simp
  qed
qed

lemma foldl_plus_hd_tl:
  fixes xs :: "nat list"
  assumes "xs \<noteq> []"
  shows "foldl (+) (hd xs) (tl xs) = sum_list xs"
proof -
  from assms obtain x rest where "xs = x # rest" by (cases xs) auto
  then show ?thesis by (simp add: foldl_conv_fold fold_plus_sum_list_rev add.commute)
qed

lemma sum_list_indicator:
  "sum_list (map (\<lambda>j. if P j then 1 else 0) js) = length (filter P js)"
  by (induction js) auto

lemma segment_counts:
  assumes "0 < r" and "r * n \<le> length vals"
  shows "reduce_by_key (=) (+) (zip (map (\<lambda>i. i div r) [0..<r * n]) (vals :: nat list)) =
         map (\<lambda>k. sum_list (map (\<lambda>j. vals ! (k * r + j)) [0..<r])) [0..<n]"
proof -
  let ?kvs = "map (\<lambda>i. (i div r, vals ! i)) [0..<r * n]"
  have z: "zip (map (\<lambda>i. i div r) [0..<r * n]) vals = ?kvs"
    using assms(2) by (intro nth_equalityI) simp_all
  have keys: "map fst ?kvs = map (\<lambda>i. i div r) [0..<r * n]" by (simp add: comp_def)
  have srt: "sorted (map fst ?kvs)"
    unfolding keys by (simp add: sorted_iff_nth_mono div_le_mono)
  have "set (map fst ?kvs) = {0..<n}"
  proof (intro set_eqI iffI)
    fix k assume "k \<in> set (map fst ?kvs)"
    then obtain i where "i < r * n" "k = i div r" unfolding keys by auto
    then have "k < n" using assms(1) by (simp add: less_mult_imp_div_less mult.commute)
    then show "k \<in> {0..<n}" by simp
  next
    fix k assume "k \<in> {0..<n}"
    then have k: "k < n" by simp
    have "k * r < r * n" using k assms(1) by (simp add: mult.commute)
    moreover have "(k * r) div r = k" using assms(1) by simp
    ultimately show "k \<in> set (map fst ?kvs)" unfolding keys
      by (metis (mono_tags, lifting) atLeastLessThan_iff image_eqI le0 set_map set_upt)
  qed
  then have cells: "remdups (map fst ?kvs) = [0..<n]"
    using remdups_sorted_cells [OF srt] by simp
  show ?thesis unfolding z reduce_by_key_sorted [OF srt] cells
  proof (intro map_cong refl)
    fix k assume "k \<in> set [0..<n]"
    then have k: "k < n" by simp
    have "map snd (filter (\<lambda>kv. fst kv = k) ?kvs) =
          map (\<lambda>i. vals ! i) (filter (\<lambda>i. i div r = k) [0..<r * n])"
      by (simp add: filter_map comp_def)
    also have "\<dots> = map (\<lambda>j. vals ! (k * r + j)) [0..<r]"
      unfolding segment_positions [OF assms(1) k] by (simp add: comp_def)
    finally have seg: "map snd (filter (\<lambda>kv. fst kv = k) ?kvs) =
                       map (\<lambda>j. vals ! (k * r + j)) [0..<r]" .
    have ne: "map (\<lambda>j. vals ! (k * r + j)) [0..<r] \<noteq> []" using assms(1) by simp
    show "foldl (+) (hd (map snd (filter (\<lambda>kv. fst kv = k) ?kvs)))
                    (tl (map snd (filter (\<lambda>kv. fst kv = k) ?kvs))) =
          sum_list (map (\<lambda>j. vals ! (k * r + j)) [0..<r])"
      unfolding seg by (rule foldl_plus_hd_tl [OF ne])
  qed
qed

lemma enumerate_selected:
  "map fst (filter (\<lambda>x. P (snd x)) (enumerate 0 xs)) = filter (\<lambda>i. P (xs ! i)) [0..<length xs]"
proof -
  have e: "enumerate 0 xs = map (\<lambda>i. (i, xs ! i)) [0..<length xs]"
    by (intro nth_equalityI) (simp_all add: nth_enumerate_eq)
  show ?thesis unfolding e by (simp add: filter_map comp_def)
qed

lemma write_then_resize:
  assumes "length xs \<le> length buf"
  shows "(case write_range xs buf of Inl e \<Rightarrow> Inl e | Inr r \<Rightarrow> K (resize (length xs) z r)) = K xs"
  using assms by (simp add: write_range_def resize_def)

text \<open>
  Claim C2. With \<open>nb_points \<ge> 1\<close> and \<open>search_radius > 0\<close>, \<^verbatim>\<open>RemoveRadiusOutliers\<close> returns the
  sub-cloud of exactly the points whose radius search with capacity \<open>nb_points + 1\<close> yields
  more than \<open>nb_points\<close> valid hits, together with the ascending list of their indices; with
  \<open>nb_points < 1\<close> or \<open>search_radius \<le> 0\<close> it ends with the exception of \<^verbatim>\<open>LogError\<close> and does
  not filter. The search fills \<open>nb_points + 1\<close> slots per point, and the attribute buffers
  the input has are as long as its points buffer.
\<close>

theorem RemoveRadiusOutliers_keeps_dense_points:
  fixes this :: PointCloud
  defines "n \<equiv> length (points this)"
  assumes "SearchRadius this (points this) search_radius (nb_points + 1) = (tmp_indices, distances)"
    and "length tmp_indices = (nb_points + 1) * n"
    and "has_normals \<longrightarrow> length (normals this) = n"
    and "has_colors \<longrightarrow> length (colors this) = n"
  shows "RemoveRadiusOutliers has_normals has_colors SearchRadius this nb_points search_radius =
         (if nb_points < 1 \<or> search_radius \<le> 0
          then Inl (RuntimeError (''[RemoveRadiusOutliers] Illegal input parameters,'' @
                                  ''number of points and radius must be positive''))
          else let kept = filter (\<lambda>i. nb_points < valid_hits tmp_indices (nb_points + 1) i) [0..<n]
               in Inr (\<lparr>points = map (\<lambda>i. points this ! i) kept,
                        normals = (if has_normals then map (\<lambda>i. normals this ! i) kept else []),
                        colors = (if has_colors then map (\<lambda>i. colors this ! i) kept else [])\<rparr>,
                       kept))"
proof (cases "nb_points < 1 \<or> search_radius \<le> 0")
  case True
  then show ?thesis by (auto simp: RemoveRadiusOutliers_def LogError_def)
next
  case False
  define r where "r = nb_points + 1"
  let ?vals = "map (\<lambda>idx. if 0 \<le> idx then 1 else 0 :: nat) tmp_indices"
  let ?kept = "filter (\<lambda>i. nb_points < valid_hits tmp_indices r i) [0..<n]"
  have r: "0 < r" by (simp add: r_def)
  have rng: "repeated_range [0..<n] r = map (\<lambda>i. i div r) [0..<r * n]"
    by (rule repeated_range_upt [OF r])
  have lt: "length tmp_indices = r * n" using assms(3) by (simp add: r_def)
  have lv: "r * n \<le> length ?vals" using lt by simp
  have hits: "sum_list (map (\<lambda>j. ?vals ! (k * r + j)) [0..<r]) = valid_hits tmp_indices r k"
    if "k < n" for k
  proof -
    have "map (\<lambda>j. ?vals ! (k * r + j)) [0..<r] =
          map (\<lambda>j. if 0 \<le> tmp_indices ! (k * r + j) then 1 else 0) [0..<r]"
    proof (intro map_cong refl)
      fix j assume "j \<in> set [0..<r]"
      then have "j < r" by auto
      then have "k * r + j < (k + 1) * r" by simp
      also have "\<dots> \<le> n * r" using that by (intro mult_le_mono1) simp
      finally have "k * r + j < length tmp_indices" using lt by (simp add: mult.commute)
      then show "?vals ! (k * r + j) = (if 0 \<le> tmp_indices ! (k * r + j) then 1 else 0)"
        by simp
    qed
    then show ?thesis by (simp only: sum_list_indicator valid_hits_def)
  qed
  have counts: "reduce_by_key (=) (+) (zip (map (\<lambda>i. i div r) [0..<r * n]) ?vals) =
                map (valid_hits tmp_indices r) [0..<n]"
    unfolding segment_counts [OF r lv] using hits by (intro map_cong refl) simp
  have wr: "write_range (map (valid_hits tmp_indices r) [0..<n]) (replicate n 0) =
            Inr (map (valid_hits tmp_indices r) [0..<n])"
    by (simp add: write_range_def)
  have sel: "map fst (filter (\<lambda>x. nb_points < snd x)
               (enumerate 0 (map (valid_hits tmp_indices r) [0..<n]))) = ?kept"
    unfolding enumerate_selected [of "\<lambda>c. nb_points < c"]
    by (intro filter_cong) simp_all
  have lsel: "length (filter (\<lambda>x. nb_points < snd x)
               (enumerate 0 (map (valid_hits tmp_indices r) [0..<n]))) = length ?kept"
    using arg_cong [OF sel, of length] by simp
  have "length ?kept \<le> length [0..<n]" by (rule length_filter_le)
  then have lk: "length ?kept \<le> length (replicate n (0::nat))" by simp
  have inr: "\<forall>i\<in>set ?kept. i < length (points this)" by (simp add: n_def)
  have sr: "SearchRadius this (points this) search_radius r = (tmp_indices, distances)"
    using assms(2) by (simp add: r_def)
  have nolog: "\<not> (nb_points < 1 \<or> search_radius \<le> 0)" using False .
  have nlt: "\<not> length tmp_indices < length (map (\<lambda>i. i div r) [0..<r * n])"
    using lt by simp
  have "RemoveRadiusOutliers has_normals has_colors SearchRadius this nb_points search_radius =
        (case write_range ?kept (replicate n 0) of
           Inl e \<Rightarrow> Inl e
         | Inr indices' \<Rightarrow>
             (case SelectByIndex has_normals has_colors this
                     (resize (length ?kept) 0 indices') False of
                Inl e \<Rightarrow> Inl e
              | Inr output \<Rightarrow> Inr (output, resize (length ?kept) 0 indices')))"
    unfolding RemoveRadiusOutliers_def r_def [symmetric] n_def [symmetric] Let_def
    by (simp only: nolog if_False sum.case sr prod.case rng nlt counts wr sel lsel)
  also have "\<dots> = (case SelectByIndex has_normals has_colors this ?kept False of
                Inl e \<Rightarrow> Inl e
              | Inr output \<Rightarrow> Inr (output, ?kept))"
    by (rule write_then_resize [OF lk])
  also have "\<dots> = Inr (\<lparr>points = map (\<lambda>i. points this ! i) ?kept,
                        normals = (if has_normals then map (\<lambda>i. normals this ! i) ?kept else []),
                        colors = (if has_colors then map (\<lambda>i. colors this ! i) ?kept else [])\<rparr>,
                       ?kept)"
    using assms(4,5) by (simp only: SelectByIndex_plain [OF inr, unfolded n_def [symmetric]] sum.case)
  finally show ?thesis
    unfolding r_def Let_def by (simp only: nolog if_False)
qed

theorem RemoveRadiusOutliers_keeps_dense_points_witness:
  "RemoveRadiusOutliers False False
     (\<lambda>geometry query radius max_nn. ([0, 1, 1, 0, 2, - 1], [0, 1, 0, 1, 0, 0]))
     \<lparr>points = [(0, 0, 0), (1, 0, 0), (10, 0, 0)], normals = [], colors = []\<rparr> 1 2
   = Inr (\<lparr>points = [(0, 0, 0), (1, 0, 0)], normals = [], colors = []\<rparr>, [0, 1])"
  using RemoveRadiusOutliers_keeps_dense_points
    [of "\<lambda>geometry query radius max_nn. ([0, 1, 1, 0, 2, - 1], [0, 1, 0, 1, 0, 0])"
        "\<lparr>points = [(0, 0, 0), (1, 0, 0), (10, 0, 0)], normals = [], colors = []\<rparr>"
        2 1 "[0, 1, 1, 0, 2, - 1]" "[0, 1, 0, 1, 0, 0]" False False]
  by (simp add: valid_hits_def upt_rec)

section \<open>RemoveStatisticalOutliers and average distances of zero\<close>

text \<open>
  Claim C3 at a cloud with duplicate points. Four points coincide and a fifth is at distance
  10; with two neighbours per point the average distances are \<open>0, 0, 0, 0, 5\<close>, all valid.
  The code counts the five of them for the mean (\<open>x \<ge> 0\<close>), which is 1, but sums the squared
  deviations of the positive ones only (\<open>x > 0\<close>): \<open>16 / 4\<close>, a deviation of 2 and, with
  \<open>std_ratio = 2\<close>, a threshold of 5, so the fifth point is dropped and the result is empty.
  Over the five valid distances the deviation with Bessel's correction is \<open>sqrt 5\<close> and the
  threshold is above 5: the claim keeps the fifth point.
\<close>

theorem RemoveStatisticalOutliers_zero_distances:
  "RemoveStatisticalOutliers False False
     (\<lambda>geometry query knn.
        ([0, 1, 1, 0, 2, 0, 3, 0, 4, 0],
         [Fin 0, Fin 0, Fin 0, Fin 0, Fin 0, Fin 0, Fin 0, Fin 0, Fin 0, Fin 10]))
     \<lparr>points = [(0, 0, 0), (0, 0, 0), (0, 0, 0), (0, 0, 0), (10, 0, 0)],
      normals = [], colors = []\<rparr> 2 (Fin 2)
   = Inr (\<lparr>points = [], normals = [], colors = []\<rparr>, [])
   \<and> valid_average_distances [Fin 0, Fin 0, Fin 0, Fin 0, Fin 5] = [0, 0, 0, 0, 5]
   \<and> 5 < spec_distance_threshold [Fin 0, Fin 0, Fin 0, Fin 0, Fin 5] 2"
proof -
  have code: "RemoveStatisticalOutliers False False
     (\<lambda>geometry query knn.
        ([0, 1, 1, 0, 2, 0, 3, 0, 4, 0],
         [Fin 0, Fin 0, Fin 0, Fin 0, Fin 0, Fin 0, Fin 0, Fin 0, Fin 0, Fin 10]))
     \<lparr>points = [(0, 0, 0), (0, 0, 0), (0, 0, 0), (0, 0, 0), (10, 0, 0)],
      normals = [], colors = []\<rparr> 2 (Fin 2)
   = Inr (\<lparr>points = [], normals = [], colors = []\<rparr>, [])"
    by (simp add: RemoveStatisticalOutliers_def Let_def flt_le_def flt_max_def flt_sub_def
        repeated_range_def upt_rec write_range_def transform2_def enumerate_eq_zip
        check_distance_threshold_functor_def resize_def
        SelectByIndex_def SelectByIndexImpl_def gather_def make_shared_PointCloud_def)
  have v: "valid_average_distances [Fin 0, Fin 0, Fin 0, Fin 0, Fin 5] = [0, 0, 0, 0, 5]"
    by (simp add: valid_average_distances_def)
  have "(2::real) < sqrt 5" by (rule real_less_rsqrt) simp
  then have "5 < spec_distance_threshold [Fin 0, Fin 0, Fin 0, Fin 0, Fin 5] 2"
    unfolding spec_distance_threshold_def v
    by (simp add: mean_of_def bessel_std_dev_def)
  with code v show ?thesis by blast
qed

section \<open>The input cloud of a call\<close>





section \<open>The dense grid of CreateFromAxisAlignedBoundingBox\<close>



















end
